theory Spec2Isabelle
  imports Complex_Main "HOL-Library.AList" "HOL-Library.Sublist"
begin

section \<open>Data model of the model editor (scripts/model\_editor.py)\<close>

text \<open>
  The editor keeps three attributes on its main window: \<open>project_path\<close> (\<open>None\<close> while
  no project is open), \<open>manifest\<close> (the parsed \<open>manifest.json\<close>) and \<open>is_dirty\<close>.
  The manifest's \<open>"layers"\<close> entry is a Python dict from layer file names to layer
  dicts. A Python dict keeps insertion order, assignment to an existing key keeps the
  key's position and a new key goes last: this is an association list with
  \<open>map_of\<close> for lookup, \<open>AList.update\<close> for assignment and \<open>AList.delete\<close> for
  \<open>del\<close>/\<open>pop\<close>.

  A layer dict has the optional keys \<open>"type"\<close>, \<open>"offset"\<close>, \<open>"description"\<close>,
  \<open>"metadata"\<close> and \<open>"bindings"\<close>; a key that is absent is \<open>None\<close>.
\<close>

record layer_record =
  l_type :: "string option"
  l_offset :: "(int \<times> int) option"
  l_description :: "string option"
  l_metadata :: "string option"
  l_bindings :: "string list option"

type_synonym layers_dict = "(string \<times> layer_record) list"

text \<open>The empty dict \<open>{}\<close> as a layer record.\<close>

definition empty_record :: layer_record where
  "empty_record =
     \<lparr>l_type = None, l_offset = None, l_description = None, l_metadata = None,
      l_bindings = None\<rparr>"


record editor_state =
  project_path :: "string option"
  manifest :: layers_dict
  is_dirty :: bool

text \<open>
  A slot either returns or raises; either way the attributes it has assigned so far
  stay assigned, so every operation below returns the state next to its outcome.
\<close>

datatype py_error = KeyError | IOError | TypeError

datatype 'a outcome = Returned 'a | Raised py_error

text \<open>\<open>mark_dirty\<close>: sets the flag when it is not set yet.\<close>

definition mark_dirty :: "editor_state \<Rightarrow> editor_state" where
  "mark_dirty st = (if \<not> is_dirty st then st\<lparr>is_dirty := True\<rparr> else st)"

subsection \<open>Metadata files\<close>

text \<open>
  A metadata file is a JSON object with an optional \<open>"top_layer"\<close> object of eight
  optional fields. \<open>x\<close>, \<open>y\<close> and the pixel sizes are integers; \<open>scale\<close> and
  \<open>opacity\<close> are Python floats, modelled as rationals with exact arithmetic.
  \<open>other_keys\<close> says whether the object has keys besides \<open>"top_layer"\<close>: Python
  treats the empty object as false.
\<close>

record top_layer_info =
  tl_x :: "int option"
  tl_y :: "int option"
  tl_scale :: "rat option"
  tl_opacity :: "rat option"
  original_width :: "int option"
  original_height :: "int option"
  scaled_width :: "int option"
  scaled_height :: "int option"

definition empty_top_layer :: top_layer_info where
  "empty_top_layer =
     \<lparr>tl_x = None, tl_y = None, tl_scale = None, tl_opacity = None,
      original_width = None, original_height = None,
      scaled_width = None, scaled_height = None\<rparr>"

record metadata_doc =
  top_layer :: "top_layer_info option"
  other_keys :: bool


datatype file_content = Invalid_json | Json_doc metadata_doc

datatype manifest_content = Manifest_invalid_json | Manifest_json "layers_dict option"

text \<open>
  What the editor sees of a project directory:
  \<^item> \<open>manifest_file\<close>: the content of \<open>manifest.json\<close>, \<open>None\<close> when the file does not
    exist; a parsed manifest carries its \<open>"layers"\<close> entry when it has one;
  \<^item> \<open>manifest_writable\<close>: whether \<open>open(manifest.json, "w")\<close> succeeds;
  \<^item> \<open>has_layers_dir\<close>: whether \<open>layers/\<close> is a directory;
  \<^item> \<open>layer_files\<close>: the names \<open>n\<close> for which \<open>layers/n\<close> exists;
  \<^item> \<open>image_size\<close>: the pixel size the image probe reads from \<open>layers/n\<close>, \<open>None\<close>
    when the file is not a readable image;
  \<^item> \<open>metadata_files\<close>: the files of \<open>metadata/\<close> with their contents, in directory
    order;
  \<^item> \<open>read_only\<close>: the metadata file names for which \<open>open(..., "w")\<close> raises
    \<open>IOError\<close>.
\<close>

record project_dir =
  manifest_file :: "manifest_content option"
  manifest_writable :: bool
  has_layers_dir :: bool
  layer_files :: "string set"
  image_size :: "string \<Rightarrow> (int \<times> int) option"
  metadata_files :: "(string \<times> file_content) list"
  read_only :: "string set"

text \<open>Python's \<open>int(x)\<close> on a float truncates toward zero.\<close>

definition py_int :: "rat \<Rightarrow> int" where
  "py_int x = (if 0 \<le> x then \<lfloor>x\<rfloor> else \<lceil>x\<rceil>)"


section \<open>Opening and saving: \<open>load_project\<close>, \<open>save_manifest\<close>, \<open>save_project\<close>,
  \<open>auto_save_project\<close>\<close>

datatype load_result = Structure_error | Load_failed | Loaded

text \<open>
  \<open>load_project(path)\<close>, with \<open>dir\<close> the directory found at \<open>path\<close>. The path is
  assigned before the manifest is read; the handler of a failed read sets it to
  \<open>None\<close>. \<open>json.load\<close> raises before \<open>self.manifest\<close> is assigned.
\<close>

definition load_project ::
  "string \<Rightarrow> project_dir \<Rightarrow> editor_state \<Rightarrow> load_result \<times> editor_state" where
  "load_project path dir st =
     (case manifest_file dir of
        None \<Rightarrow> (Structure_error, st)
      | Some content \<Rightarrow>
          if \<not> has_layers_dir dir then (Structure_error, st)
          else
            let st1 = st\<lparr>project_path := Some path\<rparr>
            in (case content of
                  Manifest_invalid_json \<Rightarrow> (Load_failed, st1\<lparr>project_path := None\<rparr>)
                | Manifest_json ls \<Rightarrow>
                    (Loaded,
                     st1\<lparr>manifest := (case ls of None \<Rightarrow> [] | Some l \<Rightarrow> l),
                         is_dirty := False\<rparr>)))"

text \<open>
  \<open>save_manifest\<close> writes the manifest when a project is open. A failing
  \<open>open(..., "w")\<close> raises and leaves the file as it was.
\<close>

definition save_manifest :: "editor_state \<Rightarrow> project_dir \<Rightarrow> unit outcome \<times> project_dir" where
  "save_manifest st dir =
     (case project_path st of
        None \<Rightarrow> (Returned (), dir)
      | Some p \<Rightarrow>
          if manifest_writable dir
          then (Returned (), dir\<lparr>manifest_file := Some (Manifest_json (Some (manifest st)))\<rparr>)
          else (Raised IOError, dir))"

text \<open>
  \<open>save_project\<close>: an exception of \<open>save_manifest\<close> leaves the function before
  \<open>self.is_dirty = False\<close>.
\<close>

definition save_project ::
  "editor_state \<Rightarrow> project_dir \<Rightarrow> bool outcome \<times> editor_state \<times> project_dir" where
  "save_project st dir =
     (case project_path st of
        None \<Rightarrow> (Returned False, st, dir)
      | Some p \<Rightarrow>
          (case save_manifest st dir of
             (Raised e, dir') \<Rightarrow> (Raised e, st, dir')
           | (Returned u, dir') \<Rightarrow> (Returned True, st\<lparr>is_dirty := False\<rparr>, dir')))"

text \<open>The slot of the 30-second timer.\<close>

definition auto_save_project ::
  "editor_state \<Rightarrow> project_dir \<Rightarrow> unit outcome \<times> editor_state \<times> project_dir" where
  "auto_save_project st dir =
     (if project_path st \<noteq> None \<and> is_dirty st then
        (case save_project st dir of
           (Raised e, st', dir') \<Rightarrow> (Raised e, st', dir')
         | (Returned b, st', dir') \<Rightarrow> (Returned (), st', dir'))
      else (Returned (), st, dir))"

section \<open>Layer kind: \<open>update_layer_type\<close>\<close>



section \<open>Adding layers: \<open>_add_layer_files\<close>\<close>

text \<open>
  One round of the loop over the chosen paths, on the manifest's layer dict and the
  set of files in \<open>layers/\<close>. \<open>name\<close> is \<open>Path(path).name\<close>; \<open>overwrite name\<close> is
  the user's answer to the "Overwrite?" question, asked only when the destination
  exists. The copy makes the destination exist. A base layer is stored by assignment
  of a fresh dict, any other layer by \<open>setdefault(name, {})\<close>.
\<close>

definition base_layer_record :: layer_record where
  "base_layer_record = empty_record\<lparr>l_type := Some ''base_layer'', l_offset := Some (0, 0)\<rparr>"





section \<open>Bindings: \<open>bind_layers\<close>, \<open>unbind_layers\<close>\<close>

definition bindings_of :: "layer_record \<Rightarrow> string list" where
  "bindings_of data = (case l_bindings data of None \<Rightarrow> [] | Some b \<Rightarrow> b)"

text \<open>The layers offered by the dialog: every key but the source and the bound ones.\<close>

definition available_layers :: "string \<Rightarrow> layer_record \<Rightarrow> layers_dict \<Rightarrow> string list" where
  "available_layers source_layer_name source_layer_data ls =
     filter (\<lambda>name. name \<noteq> source_layer_name \<and> name \<notin> set (bindings_of source_layer_data))
       (map fst ls)"

text \<open>\<open>for layer in layers_to_bind: if layer not in bindings: bindings.append(layer)\<close>\<close>

fun bind_loop :: "string list \<Rightarrow> string list \<Rightarrow> string list" where
  "bind_loop bindings [] = bindings"
| "bind_loop bindings (layer # rest) =
     bind_loop (if layer \<notin> set bindings then bindings @ [layer] else bindings) rest"

text \<open>
  \<open>dialog\<close> is what the dialog gives back: \<open>None\<close> when it is cancelled, the selected
  names otherwise. It is not shown when nothing is available.
\<close>

definition bind_layers ::
  "string option \<Rightarrow> string list option \<Rightarrow> editor_state \<Rightarrow> unit outcome \<times> editor_state" where
  "bind_layers current_item dialog st =
     (case current_item of
        None \<Rightarrow> (Returned (), st)
      | Some source_layer_name \<Rightarrow>
          (case map_of (manifest st) source_layer_name of
             None \<Rightarrow> (Raised KeyError, st)
           | Some source_layer_data \<Rightarrow>
               if available_layers source_layer_name source_layer_data (manifest st) = []
               then (Returned (), st)
               else
                 (case dialog of
                    None \<Rightarrow> (Returned (), st)
                  | Some layers_to_bind \<Rightarrow>
                      if layers_to_bind = [] then (Returned (), st)
                      else
                        (Returned (),
                         mark_dirty
                           (st\<lparr>manifest :=
                              AList.update source_layer_name
                                (source_layer_data
                                   \<lparr>l_bindings :=
                                      Some (bind_loop (bindings_of source_layer_data)
                                              layers_to_bind)\<rparr>)
                                (manifest st)\<rparr>)))))"

text \<open>\<open>list.remove\<close> deletes the first occurrence: \<open>remove1\<close>.\<close>

fun unbind_loop :: "string list \<Rightarrow> string list \<Rightarrow> string list" where
  "unbind_loop bindings [] = bindings"
| "unbind_loop bindings (layer_to_remove # rest) =
     unbind_loop
       (if layer_to_remove \<in> set bindings then remove1 layer_to_remove bindings
        else bindings) rest"

definition unbind_layers ::
  "string option \<Rightarrow> string list \<Rightarrow> editor_state \<Rightarrow> unit outcome \<times> editor_state" where
  "unbind_layers current_item selected_bindings st =
     (case current_item of
        None \<Rightarrow> (Returned (), st)
      | Some source_layer_name \<Rightarrow>
          if selected_bindings = [] then (Returned (), st)
          else
            (case map_of (manifest st) source_layer_name of
               None \<Rightarrow> (Raised KeyError, st)
             | Some source_layer_data \<Rightarrow>
                 (case l_bindings source_layer_data of
                    None \<Rightarrow> (Returned (), st)
                  | Some bindings \<Rightarrow>
                      let bindings' = unbind_loop bindings selected_bindings
                      in (Returned (),
                          mark_dirty
                            (st\<lparr>manifest :=
                               AList.update source_layer_name
                                 (source_layer_data
                                    \<lparr>l_bindings :=
                                       (if bindings' = [] then None else Some bindings')\<rparr>)
                                 (manifest st)\<rparr>)))))"

section \<open>Manifest cleanup: \<open>cleanup_manifest\<close>\<close>

text \<open>\<open>for layer_name in missing_layers: del self.manifest["layers"][layer_name]\<close>;
  \<open>del\<close> of a key that is not there raises \<open>KeyError\<close>.\<close>

fun del_layers :: "string list \<Rightarrow> layers_dict \<Rightarrow> unit outcome \<times> layers_dict" where
  "del_layers [] ls = (Returned (), ls)"
| "del_layers (layer_name # rest) ls =
     (if map_of ls layer_name = None then (Raised KeyError, ls)
      else del_layers rest (AList.delete layer_name ls))"

text \<open>
  \<open>confirmed\<close> is the answer to the confirmation question. The value returned is the
  list of names the summary reports (the function itself shows it in a message box).
  The function assigns nothing in the project directory, which is returned as it was
  given.
\<close>

definition cleanup_manifest ::
  "bool \<Rightarrow> editor_state \<Rightarrow> project_dir
     \<Rightarrow> string list outcome \<times> editor_state \<times> project_dir" where
  "cleanup_manifest confirmed st dir =
     (case project_path st of
        None \<Rightarrow> (Returned [], st, dir)
      | Some p \<Rightarrow>
          if \<not> confirmed then (Returned [], st, dir)
          else
            let all_layers = map fst (manifest st);
                missing_layers = filter (\<lambda>layer_name. layer_name \<notin> layer_files dir) all_layers
            in if missing_layers = [] then (Returned [], st, dir)
               else
                 (case del_layers missing_layers (manifest st) of
                    (Raised e, ls) \<Rightarrow> (Raised e, st\<lparr>manifest := ls\<rparr>, dir)
                  | (Returned u, ls) \<Rightarrow>
                      (Returned missing_layers, mark_dirty (st\<lparr>manifest := ls\<rparr>), dir)))"

section \<open>Metadata: loading, creating, editing\<close>

text \<open>
  \<open>self.manifest["layers"].get(layer_name, {}).get("metadata")\<close>, followed in every
  caller by \<open>if not metadata_filename\<close>: a missing layer, a missing key and the empty
  string all count as no file.
\<close>

definition metadata_filename_for :: "string \<Rightarrow> editor_state \<Rightarrow> string option" where
  "metadata_filename_for layer_name st =
     (case map_of (manifest st) layer_name of
        None \<Rightarrow> None
      | Some data \<Rightarrow>
          (case l_metadata data of
             None \<Rightarrow> None
           | Some metadata_filename \<Rightarrow>
               if metadata_filename = [] then None else Some metadata_filename))"

definition load_metadata_content_for_layer ::
  "string \<Rightarrow> editor_state \<Rightarrow> project_dir \<Rightarrow> file_content option" where
  "load_metadata_content_for_layer layer_name st dir =
     (if layer_name = [] \<or> project_path st = None then None
      else (case metadata_filename_for layer_name st of
              None \<Rightarrow> None
            | Some metadata_filename \<Rightarrow> map_of (metadata_files dir) metadata_filename))"

definition load_metadata_json_for_layer ::
  "string \<Rightarrow> editor_state \<Rightarrow> project_dir \<Rightarrow> metadata_doc option" where
  "load_metadata_json_for_layer layer_name st dir =
     (case load_metadata_content_for_layer layer_name st dir of
        None \<Rightarrow> None
      | Some Invalid_json \<Rightarrow> None
      | Some (Json_doc doc) \<Rightarrow> Some doc)"

text \<open>
  \<open>Path(name).stem\<close> of a single path component (CPython's \<open>pathlib\<close>): the name up
  to its last dot, when that dot is neither the first nor the last character.
\<close>

fun rfind :: "char \<Rightarrow> string \<Rightarrow> nat option" where
  "rfind c [] = None"
| "rfind c (x # xs) =
     (case rfind c xs of
        Some i \<Rightarrow> Some (Suc i)
      | None \<Rightarrow> if x = c then Some 0 else None)"

definition py_stem :: "string \<Rightarrow> string" where
  "py_stem name =
     (case rfind (CHR ''.'') name of
        None \<Rightarrow> name
      | Some i \<Rightarrow> if 0 < i \<and> i < length name - 1 then take i name else name)"

text \<open>A \<open>QPixmap\<close> of a file that is no image is the null pixmap, of size 0 by 0.\<close>

definition pixmap_size :: "project_dir \<Rightarrow> string \<Rightarrow> int \<times> int" where
  "pixmap_size dir name = (case image_size dir name of None \<Rightarrow> (0, 0) | Some wh \<Rightarrow> wh)"

definition default_metadata :: "int \<Rightarrow> int \<Rightarrow> metadata_doc" where
  "default_metadata original_w original_h =
     \<lparr>top_layer =
        Some \<lparr>tl_x = Some 0, tl_y = Some 0, tl_scale = Some 1, tl_opacity = Some 1,
              original_width = Some original_w, original_height = Some original_h,
              scaled_width = Some original_w, scaled_height = Some original_h\<rparr>,
      other_keys = False\<rparr>"

text \<open>
  \<open>_create_and_assign_metadata(layer_name)\<close>: returns the new file name, or \<open>None\<close>
  when the file cannot be written. With no project open the first line raises
  \<open>TypeError\<close>; a layer name that is no key raises \<open>KeyError\<close> after the file was
  written.
\<close>

definition create_and_assign_metadata ::
  "string \<Rightarrow> editor_state \<Rightarrow> project_dir
     \<Rightarrow> string option outcome \<times> editor_state \<times> project_dir" where
  "create_and_assign_metadata layer_name st dir =
     (case project_path st of
        None \<Rightarrow> (Raised TypeError, st, dir)
      | Some p \<Rightarrow>
          let (original_w, original_h) =
                (if layer_name \<in> layer_files dir then pixmap_size dir layer_name else (0, 0));
              metadata_filename = py_stem layer_name @ ''.json''
          in if metadata_filename \<in> read_only dir then (Returned None, st, dir)
             else
               let dir' = dir\<lparr>metadata_files :=
                            AList.update metadata_filename
                              (Json_doc (default_metadata original_w original_h))
                              (metadata_files dir)\<rparr>
               in (case map_of (manifest st) layer_name of
                     None \<Rightarrow> (Raised KeyError, st, dir')
                   | Some data \<Rightarrow>
                       (Returned (Some metadata_filename),
                        mark_dirty
                          (st\<lparr>manifest :=
                             AList.update layer_name
                               (data\<lparr>l_metadata := Some metadata_filename\<rparr>)
                               (manifest st)\<rparr>),
                        dir')))"



section \<open>Preview: \<open>update_preview\<close>, \<open>_render_bound_layers_for\<close>\<close>

text \<open>
  What the preview puts on the scene, one entry per visible item in the order the
  code sets them up: the image, the position, the scale, the opacity and the z-value.
\<close>

record draw_op =
  d_image :: string
  d_pos :: "int \<times> int"
  d_scale :: rat
  d_opacity :: rat
  d_z :: nat

text \<open>The placement read from a layer's metadata, with the defaults \<open>0, 0, 1.0, 1.0\<close>.\<close>

definition placement_for :: "string \<Rightarrow> editor_state \<Rightarrow> project_dir \<Rightarrow> int \<times> int \<times> rat \<times> rat" where
  "placement_for name st dir =
     (case load_metadata_json_for_layer name st dir of
        None \<Rightarrow> (0, 0, 1, 1)
      | Some metadata \<Rightarrow>
          (case top_layer metadata of
             None \<Rightarrow> (0, 0, 1, 1)
           | Some meta \<Rightarrow>
               (case tl_x meta of None \<Rightarrow> 0 | Some v \<Rightarrow> v,
                case tl_y meta of None \<Rightarrow> 0 | Some v \<Rightarrow> v,
                case tl_scale meta of None \<Rightarrow> 1 | Some v \<Rightarrow> v,
                case tl_opacity meta of None \<Rightarrow> 1 | Some v \<Rightarrow> v)))"

definition placed_op :: "string \<Rightarrow> int \<times> int \<Rightarrow> nat \<Rightarrow> editor_state \<Rightarrow> project_dir \<Rightarrow> draw_op" where
  "placed_op name base_offset z st dir =
     (case placement_for name st dir of
        (meta_x, meta_y, meta_scale, meta_opacity) \<Rightarrow>
          \<lparr>d_image = name,
           d_pos = (fst base_offset + meta_x, snd base_offset + meta_y),
           d_scale = meta_scale, d_opacity = meta_opacity, d_z = z\<rparr>)"

text \<open>
  The loop of \<open>_render_bound_layers_for\<close>: a bound name without a file is skipped and
  takes no z-value. The result is the items added and the final \<open>current_z\<close>.
\<close>

fun render_bound_loop ::
  "editor_state \<Rightarrow> project_dir \<Rightarrow> int \<times> int \<Rightarrow> string list \<Rightarrow> nat \<Rightarrow> draw_op list \<times> nat" where
  "render_bound_loop st dir base_offset [] current_z = ([], current_z)"
| "render_bound_loop st dir base_offset (bound_name # rest) current_z =
     (if bound_name \<notin> layer_files dir
      then render_bound_loop st dir base_offset rest current_z
      else
        (case render_bound_loop st dir base_offset rest (current_z + 1) of
           (ops, z) \<Rightarrow> (placed_op bound_name base_offset current_z st dir # ops, z)))"

definition render_bound_layers_for ::
  "string \<Rightarrow> int \<times> int \<Rightarrow> nat \<Rightarrow> editor_state \<Rightarrow> project_dir \<Rightarrow> draw_op list \<times> nat" where
  "render_bound_layers_for source_layer_name base_offset start_z st dir =
     render_bound_loop st dir base_offset
       (case map_of (manifest st) source_layer_name of
          None \<Rightarrow> []
        | Some source_layer_data \<Rightarrow> bindings_of source_layer_data)
       start_z"

text \<open>\<open>name and name != "<None>"\<close>\<close>

definition is_selected :: "string \<Rightarrow> bool" where
  "is_selected name = (name \<noteq> [] \<and> name \<noteq> ''<None>'')"

text \<open>
  \<open>update_preview\<close> for the names shown by the two preview combo boxes, with a
  project open. The base item sits at the origin with z-value 0; \<open>z_index\<close> is then
  1 for the overlay item whether or not a base was drawn, and each group of bound
  layers starts one above the \<open>z_index\<close> reached before it.
\<close>

definition update_preview :: "string \<Rightarrow> string \<Rightarrow> editor_state \<Rightarrow> project_dir \<Rightarrow> draw_op list" where
  "update_preview base_name top_name st dir =
     (let base_offset =
            (case map_of (manifest st) base_name of
               None \<Rightarrow> (0, 0)
             | Some data \<Rightarrow> (case l_offset data of None \<Rightarrow> (0, 0) | Some off \<Rightarrow> off));
          z_index = 0;
          base_ops =
            (if is_selected base_name \<and> base_name \<in> layer_files dir
             then [\<lparr>d_image = base_name, d_pos = (0, 0), d_scale = 1, d_opacity = 1,
                     d_z = z_index\<rparr>]
             else []);
          z_index = z_index + 1;
          top_ops =
            (if is_selected top_name \<and> top_name \<in> layer_files dir
             then [placed_op top_name base_offset z_index st dir]
             else []);
          (top_bound, z_index) =
            (if is_selected top_name
             then render_bound_layers_for top_name base_offset (z_index + 1) st dir
             else ([], z_index));
          (base_bound, z_index) =
            (if is_selected base_name
             then render_bound_layers_for base_name base_offset (z_index + 1) st dir
             else ([], z_index))
      in base_ops @ top_ops @ top_bound @ base_bound)"

section \<open>Migration: \<open>run_migration_script\<close>\<close>

text \<open>
  The dict from metadata file name to layer name, filled in manifest order; a later
  layer with the same metadata file replaces an earlier one.
\<close>

definition metadata_to_layer_map :: "layers_dict \<Rightarrow> (string \<times> string) list" where
  "metadata_to_layer_map ls =
     foldl (\<lambda>m (layer_name, layer_info).
              case l_metadata layer_info of
                None \<Rightarrow> m
              | Some metadata_filename \<Rightarrow>
                  if metadata_filename = [] then m
                  else AList.update metadata_filename layer_name m)
       [] ls"

datatype migration_error =
    Layer_not_found string string
  | Invalid_json_in string
  | Error_with string

datatype file_outcome = Processed | Skipped | Failed migration_error

record migration_counts =
  processed_count :: nat
  skipped_count :: nat
  error_count :: nat
  error_messages :: "migration_error list"

definition no_counts :: migration_counts where
  "no_counts = \<lparr>processed_count = 0, skipped_count = 0, error_count = 0, error_messages = []\<rparr>"

text \<open>
  The four assignments that backfill a legacy record from the image size:
  \<open>scale = data["top_layer"].get("scale", 1.0)\<close>, then the original sizes and
  \<open>int(original * scale)\<close> for the scaled ones.
\<close>

definition backfill_sizes :: "top_layer_info \<Rightarrow> int \<Rightarrow> int \<Rightarrow> top_layer_info" where
  "backfill_sizes info original_w original_h =
     (let scale = (case tl_scale info of None \<Rightarrow> 1 | Some s \<Rightarrow> s)
      in info\<lparr>original_width := Some original_w,
              original_height := Some original_h,
              scaled_width := Some (py_int (of_int original_w * scale)),
              scaled_height := Some (py_int (of_int original_h * scale))\<rparr>)"

text \<open>
  The body of the loop for one metadata file: what becomes of the file and of the
  directory. A file that cannot be opened, an image the probe cannot read and a
  write that fails all raise into \<open>except Exception\<close>.
\<close>

definition migrate_file ::
  "(string \<times> string) list \<Rightarrow> project_dir \<Rightarrow> string \<Rightarrow> file_outcome \<times> project_dir" where
  "migrate_file metadata_to_layer dir json_name =
     (case map_of (metadata_files dir) json_name of
        None \<Rightarrow> (Failed (Error_with json_name), dir)
      | Some Invalid_json \<Rightarrow> (Failed (Invalid_json_in json_name), dir)
      | Some (Json_doc data) \<Rightarrow>
          (case top_layer data of
             None \<Rightarrow> (Skipped, dir)
           | Some info \<Rightarrow>
               if original_width info \<noteq> None then (Skipped, dir)
               else
                 (case map_of metadata_to_layer json_name of
                    None \<Rightarrow> (Skipped, dir)
                  | Some layer_filename \<Rightarrow>
                      if layer_filename \<notin> layer_files dir
                      then (Failed (Layer_not_found layer_filename json_name), dir)
                      else
                        (case image_size dir layer_filename of
                           None \<Rightarrow> (Failed (Error_with json_name), dir)
                         | Some (original_w, original_h) \<Rightarrow>
                             let info' = backfill_sizes info original_w original_h
                             in if json_name \<in> read_only dir
                                then (Failed (Error_with json_name), dir)
                                else
                                  (Processed,
                                   dir\<lparr>metadata_files :=
                                          AList.update json_name
                                            (Json_doc (data\<lparr>top_layer := Some info'\<rparr>))
                                            (metadata_files dir)\<rparr>)))))"

text \<open>The counter each outcome increments.\<close>

definition count_outcome :: "migration_counts \<Rightarrow> file_outcome \<Rightarrow> migration_counts" where
  "count_outcome c out =
     (case out of
        Processed \<Rightarrow> c\<lparr>processed_count := processed_count c + 1\<rparr>
      | Skipped \<Rightarrow> c\<lparr>skipped_count := skipped_count c + 1\<rparr>
      | Failed e \<Rightarrow> c\<lparr>error_count := error_count c + 1,
                      error_messages := error_messages c @ [e]\<rparr>)"

text \<open>
  The loop over the listed files; \<open>was_canceled i\<close> is what the progress dialog
  answers at the start of round \<open>i\<close>, and a cancelled loop stops there.
\<close>

fun migration_loop ::
  "(string \<times> string) list \<Rightarrow> (nat \<Rightarrow> bool) \<Rightarrow> nat \<Rightarrow> string list
     \<Rightarrow> migration_counts \<times> project_dir \<Rightarrow> migration_counts \<times> project_dir" where
  "migration_loop metadata_to_layer was_canceled i [] acc = acc"
| "migration_loop metadata_to_layer was_canceled i (json_name # rest) acc =
     (if was_canceled i then acc
      else
        (case migrate_file metadata_to_layer (snd acc) json_name of
           (out, dir') \<Rightarrow>
             migration_loop metadata_to_layer was_canceled (Suc i) rest
               (count_outcome (fst acc) out, dir')))"

text \<open>\<open>metadata_dir.glob("*.json")\<close>: the files whose name ends in \<open>.json\<close>.\<close>

definition glob_json :: "project_dir \<Rightarrow> string list" where
  "glob_json dir = filter (\<lambda>name. suffix ''.json'' name) (map fst (metadata_files dir))"

text \<open>
  The whole tool. The result is the summary (\<open>None\<close> when the tool stops before the
  loop: no project open, or no \<open>.json\<close> file) and the directory afterwards.
\<close>

definition run_migration_script ::
  "(nat \<Rightarrow> bool) \<Rightarrow> editor_state \<Rightarrow> project_dir \<Rightarrow> migration_counts option \<times> project_dir" where
  "run_migration_script was_canceled st dir =
     (case project_path st of
        None \<Rightarrow> (None, dir)
      | Some p \<Rightarrow>
          let metadata_to_layer = metadata_to_layer_map (manifest st);
              metadata_files = glob_json dir
          in if metadata_files = [] then (None, dir)
             else
               (case migration_loop metadata_to_layer was_canceled 0 metadata_files
                       (no_counts, dir) of
                  (c, dir') \<Rightarrow> (Some c, dir')))"

section \<open>Example projects\<close>

text \<open>
  The cleanup scenario of the specification: the manifest has the layers \<open>a.png\<close> and
  \<open>b.png\<close>, only \<open>a.png\<close> exists on disk. Here \<open>a.png\<close> also binds \<open>b.png\<close>.
\<close>

definition scenario_dir :: project_dir where
  "scenario_dir =
     \<lparr>manifest_file = Some (Manifest_json (Some [])), manifest_writable = True,
      has_layers_dir = True, layer_files = {''a.png''},
      image_size = (\<lambda>n. None), metadata_files = [], read_only = {}\<rparr>"

definition scenario_state :: editor_state where
  "scenario_state =
     \<lparr>project_path = Some ''proj'',
      manifest = [(''a.png'', empty_record\<lparr>l_bindings := Some [''b.png'']\<rparr>),
                  (''b.png'', empty_record)],
      is_dirty = False\<rparr>"

text \<open>A directory whose \<open>manifest.json\<close> is not JSON.\<close>

definition broken_dir :: project_dir where
  "broken_dir = scenario_dir\<lparr>manifest_file := Some Manifest_invalid_json\<rparr>"

text \<open>The binding scenario: layers \<open>a.png\<close> and \<open>c.png\<close>, nothing bound.\<close>

definition binding_state :: editor_state where
  "binding_state =
     \<lparr>project_path = Some ''proj'',
      manifest = [(''a.png'', empty_record), (''c.png'', empty_record)],
      is_dirty = False\<rparr>"

text \<open>
  The z-order scenario: base \<open>B.png\<close> binds \<open>x.png\<close> and \<open>y.png\<close>, overlay
  \<open>O.png\<close> binds \<open>p.png\<close> and \<open>q.png\<close>, every file exists.
\<close>

definition preview_state :: editor_state where
  "preview_state =
     \<lparr>project_path = Some ''proj'',
      manifest =
        [(''B.png'', base_layer_record\<lparr>l_bindings := Some [''x.png'', ''y.png'']\<rparr>),
         (''O.png'', empty_record\<lparr>l_bindings := Some [''p.png'', ''q.png'']\<rparr>),
         (''p.png'', empty_record), (''q.png'', empty_record),
         (''x.png'', empty_record), (''y.png'', empty_record)],
      is_dirty = False\<rparr>"

definition preview_dir :: project_dir where
  "preview_dir =
     scenario_dir\<lparr>layer_files :=
       {''B.png'', ''O.png'', ''p.png'', ''q.png'', ''x.png'', ''y.png''}\<rparr>"






text \<open>
  The migration scenario of the specification: \<open>hair.json\<close> holds only a position and
  the scale 2.0 and belongs to \<open>hair.png\<close>, an image of 100 by 50 pixels. Beside it
  lie a legacy file no layer refers to, a file that is not JSON, and a file the glob
  does not match.
\<close>

definition legacy_doc :: metadata_doc where
  "legacy_doc =
     \<lparr>top_layer = Some (empty_top_layer\<lparr>tl_x := Some 0, tl_y := Some 0, tl_scale := Some 2\<rparr>),
      other_keys = False\<rparr>"

definition migrated_doc :: metadata_doc where
  "migrated_doc =
     \<lparr>top_layer =
        Some (empty_top_layer
          \<lparr>tl_x := Some 0, tl_y := Some 0, tl_scale := Some 2,
           original_width := Some 100, original_height := Some 50,
           scaled_width := Some 200, scaled_height := Some 100\<rparr>),
      other_keys = False\<rparr>"

definition migration_state :: editor_state where
  "migration_state =
     \<lparr>project_path = Some ''proj'',
      manifest = [(''hair.png'', empty_record\<lparr>l_metadata := Some ''hair.json''\<rparr>)],
      is_dirty = False\<rparr>"

definition migration_dir :: project_dir where
  "migration_dir =
     \<lparr>manifest_file = Some (Manifest_json (Some [])), manifest_writable = True,
      has_layers_dir = True, layer_files = {''hair.png''},
      image_size = (\<lambda>n. if n = ''hair.png'' then Some (100, 50) else None),
      metadata_files =
        [(''hair.json'', Json_doc legacy_doc), (''free.json'', Json_doc legacy_doc),
         (''bad.json'', Invalid_json), (''notes.txt'', Invalid_json)],
      read_only = {}\<rparr>"

definition migrated_dir :: project_dir where
  "migrated_dir =
     migration_dir\<lparr>metadata_files :=
        [(''hair.json'', Json_doc migrated_doc), (''free.json'', Json_doc legacy_doc),
         (''bad.json'', Invalid_json), (''notes.txt'', Invalid_json)]\<rparr>"

section \<open>Theorems\<close>

lemma manifest_mark_dirty [simp]: "manifest (mark_dirty st) = manifest st"
  by (simp add: mark_dirty_def)

lemma project_path_mark_dirty [simp]: "project_path (mark_dirty st) = project_path st"
  by (simp add: mark_dirty_def)

lemma is_dirty_mark_dirty [simp]: "is_dirty (mark_dirty st)"
  by (simp add: mark_dirty_def)

lemma map_of_update_same [simp]: "map_of (AList.update k v al) k = Some v"
  by (simp add: update_conv')



lemma map_of_update_other: "k' \<noteq> k \<Longrightarrow> map_of (AList.update k v al) k' = map_of al k'"
  by (simp add: update_conv')

lemma map_of_filter_key:
  "map_of (filter (\<lambda>kv. P (fst kv)) al) n = (if P n then map_of al n else None)"
  by (induction al) auto

subsection \<open>Cleanup\<close>

lemma del_layers_filter:
  "distinct ns \<Longrightarrow> set ns \<subseteq> fst ` set ls \<Longrightarrow>
   del_layers ns ls = (Returned (), filter (\<lambda>kv. fst kv \<notin> set ns) ls)"
proof (induction ns arbitrary: ls)
  case Nil
  then show ?case by simp
next
  case (Cons n ns)
  have in_dom: "map_of ls n \<noteq> None"
    using Cons.prems(2) by (simp add: map_of_eq_None_iff)
  have "set (map fst (AList.delete n ls)) = set (map fst ls) - {n}"
    by (simp add: delete_keys)
  then have sub: "set ns \<subseteq> fst ` set (AList.delete n ls)"
    using Cons.prems by auto
  have "del_layers ns (AList.delete n ls)
      = (Returned (), filter (\<lambda>kv. fst kv \<notin> set ns) (AList.delete n ls))"
    using Cons.IH [OF _ sub] Cons.prems(1) by simp
  moreover have "filter (\<lambda>kv. fst kv \<notin> set ns) (AList.delete n ls)
      = filter (\<lambda>kv. fst kv \<notin> set (n # ns)) ls"
    by (auto simp: AList.delete_eq intro: filter_cong)
  ultimately show ?case using in_dom by simp
qed

text \<open>
  C2. With a project open, its layer dict a dict (no key twice) and the question
  confirmed, \<open>cleanup_manifest\<close> reports exactly the names whose file under
  \<open>layers/\<close> does not exist, in manifest order, and removes exactly their records:
  the layer dict afterwards is the old one restricted to the names whose file exists,
  so every surviving record is the record it was, its bindings list included, whether
  or not it names a removed layer. The project path and the project directory
  (metadata files included) are as before. Declined, the cleanup changes nothing.
\<close>

theorem cleanup_manifest_exact:
  assumes "project_path st \<noteq> None" and "distinct (map fst (manifest st))"
  shows "\<exists>st'. cleanup_manifest True st dir =
           (Returned (filter (\<lambda>n. n \<notin> layer_files dir) (map fst (manifest st))), st', dir)
       \<and> manifest st' = filter (\<lambda>kv. fst kv \<in> layer_files dir) (manifest st)
       \<and> project_path st' = project_path st
       \<and> (\<forall>n. map_of (manifest st') n =
                (if n \<in> layer_files dir then map_of (manifest st) n else None))
       \<and> cleanup_manifest False st dir = (Returned [], st, dir)"
proof -
  let ?missing = "filter (\<lambda>n. n \<notin> layer_files dir) (map fst (manifest st))"
  have d: "distinct ?missing" using assms(2) by simp
  have s: "set ?missing \<subseteq> fst ` set (manifest st)" by auto
  have del: "del_layers ?missing (manifest st)
           = (Returned (), filter (\<lambda>kv. fst kv \<notin> set ?missing) (manifest st))"
    by (rule del_layers_filter [OF d s])
  have f: "filter (\<lambda>kv. fst kv \<notin> set ?missing) (manifest st)
         = filter (\<lambda>kv. fst kv \<in> layer_files dir) (manifest st)"
    by (auto intro: filter_cong)
  have nomiss: "?missing = [] \<Longrightarrow>
      filter (\<lambda>kv. fst kv \<in> layer_files dir) (manifest st) = manifest st"
    by (auto simp: filter_empty_conv)
  have m: "\<And>n. map_of (filter (\<lambda>kv. fst kv \<in> layer_files dir) (manifest st)) n
       = (if n \<in> layer_files dir then map_of (manifest st) n else None)"
    by (rule map_of_filter_key)
  show ?thesis
    using assms(1) del f nomiss m
    by (cases "?missing = []") (auto simp: cleanup_manifest_def Let_def)
qed

theorem cleanup_manifest_exact_witness:
  "project_path scenario_state \<noteq> None \<and> distinct (map fst (manifest scenario_state))
   \<and> cleanup_manifest True scenario_state scenario_dir =
       (Returned [''b.png''],
        \<lparr>project_path = Some ''proj'',
         manifest = [(''a.png'', empty_record\<lparr>l_bindings := Some [''b.png'']\<rparr>)],
         is_dirty = True\<rparr>,
        scenario_dir)"
  using cleanup_manifest_exact [of scenario_state scenario_dir]
  by (simp add: cleanup_manifest_def scenario_state_def scenario_dir_def mark_dirty_def
        Let_def)

subsection \<open>Loading\<close>

text \<open>
  C7 as stated fails: after a project \<open>old\<close> was open, loading a directory whose
  \<open>manifest.json\<close> is malformed leaves the editor with no project path.
\<close>

theorem load_project_malformed_counterexample:
  "snd (load_project ''new'' broken_dir (scenario_state\<lparr>project_path := Some ''old''\<rparr>))
     \<noteq> scenario_state\<lparr>project_path := Some ''old''\<rparr>
   \<and> project_path
        (snd (load_project ''new'' broken_dir (scenario_state\<lparr>project_path := Some ''old''\<rparr>)))
       = None"
  by (simp add: load_project_def broken_dir_def scenario_dir_def scenario_state_def)

text \<open>
  C7, amended. If \<open>manifest.json\<close> exists beside a \<open>layers\<close> directory and is
  malformed JSON, \<open>load_project\<close> fails with the load error; the in-memory manifest
  and the dirty flag are the ones from before the load, and the project path is
  \<open>None\<close> afterwards, whatever it was before.
\<close>

theorem load_project_malformed:
  assumes "manifest_file dir = Some Manifest_invalid_json" and "has_layers_dir dir"
  shows "load_project path dir st = (Load_failed, st\<lparr>project_path := None\<rparr>)
       \<and> manifest (snd (load_project path dir st)) = manifest st
       \<and> is_dirty (snd (load_project path dir st)) = is_dirty st
       \<and> project_path (snd (load_project path dir st)) = None"
  using assms by (simp add: load_project_def)

theorem load_project_malformed_witness:
  "manifest_file broken_dir = Some Manifest_invalid_json \<and> has_layers_dir broken_dir
   \<and> load_project ''new'' broken_dir scenario_state
       = (Load_failed, scenario_state\<lparr>project_path := None\<rparr>)"
  using load_project_malformed [of broken_dir "''new''" scenario_state]
  by (simp add: broken_dir_def scenario_dir_def)

subsection \<open>Autosave\<close>

text \<open>
  C9. With a project open, the timer slot saves and clears the flag exactly when the
  flag is set: a dirty state with a writable manifest ends clean with the in-memory
  manifest on disk; a clean state is left alone and nothing is written. When the
  write raises \<open>IOError\<close>, the exception leaves the slot with the state as it was,
  still dirty, and the disk as it was; the next run of the slot on that state saves
  again.
\<close>

theorem auto_save_project_dirty:
  assumes "project_path st = Some p"
  shows "(is_dirty st \<and> manifest_writable dir \<longrightarrow>
            auto_save_project st dir =
              (Returned (), st\<lparr>is_dirty := False\<rparr>,
               dir\<lparr>manifest_file := Some (Manifest_json (Some (manifest st)))\<rparr>))
       \<and> (\<not> is_dirty st \<longrightarrow> auto_save_project st dir = (Returned (), st, dir))
       \<and> (is_dirty st \<and> \<not> manifest_writable dir \<longrightarrow>
            auto_save_project st dir = (Raised IOError, st, dir)
          \<and> is_dirty (fst (snd (auto_save_project st dir)))
          \<and> (\<forall>dir2. manifest_writable dir2 \<longrightarrow>
                auto_save_project (fst (snd (auto_save_project st dir))) dir2 =
                  (Returned (), st\<lparr>is_dirty := False\<rparr>,
                   dir2\<lparr>manifest_file := Some (Manifest_json (Some (manifest st)))\<rparr>)))"
  using assms by (simp add: auto_save_project_def save_project_def save_manifest_def)

theorem auto_save_project_dirty_witness:
  "project_path (scenario_state\<lparr>is_dirty := True\<rparr>) = Some ''proj''
   \<and> is_dirty (scenario_state\<lparr>is_dirty := True\<rparr>)
   \<and> \<not> manifest_writable (scenario_dir\<lparr>manifest_writable := False\<rparr>)
   \<and> manifest_writable scenario_dir
   \<and> auto_save_project (scenario_state\<lparr>is_dirty := True\<rparr>)
        (scenario_dir\<lparr>manifest_writable := False\<rparr>)
       = (Raised IOError, scenario_state\<lparr>is_dirty := True\<rparr>,
          scenario_dir\<lparr>manifest_writable := False\<rparr>)
   \<and> auto_save_project (scenario_state\<lparr>is_dirty := True\<rparr>) scenario_dir
       = (Returned (), scenario_state\<lparr>is_dirty := False\<rparr>,
          scenario_dir\<lparr>manifest_file := Some (Manifest_json (Some (manifest scenario_state)))\<rparr>)
   \<and> \<not> is_dirty scenario_state
   \<and> auto_save_project scenario_state scenario_dir = (Returned (), scenario_state, scenario_dir)"
  using auto_save_project_dirty
          [of "scenario_state\<lparr>is_dirty := True\<rparr>" "''proj''"
              "scenario_dir\<lparr>manifest_writable := False\<rparr>"]
        auto_save_project_dirty [of "scenario_state\<lparr>is_dirty := True\<rparr>" "''proj''" scenario_dir]
        auto_save_project_dirty [of scenario_state "''proj''" scenario_dir]
  by (simp add: scenario_state_def scenario_dir_def)

subsection \<open>Bindings\<close>

lemma bind_loop_prefix:
  "\<exists>extra. bind_loop bs ls = bs @ extra \<and> set extra = set ls - set bs
      \<and> (distinct bs \<longrightarrow> distinct (bs @ extra)) \<and> distinct extra"
proof (induction ls arbitrary: bs)
  case Nil
  then show ?case by simp
next
  case (Cons l ls)
  show ?case
  proof (cases "l \<in> set bs")
    case True
    with Cons.IH [of bs] show ?thesis by auto
  next
    case False
    from Cons.IH [of "bs @ [l]"] obtain extra where
      e: "bind_loop (bs @ [l]) ls = (bs @ [l]) @ extra"
         "set extra = set ls - set (bs @ [l])"
         "distinct (bs @ [l]) \<longrightarrow> distinct ((bs @ [l]) @ extra)" "distinct extra"
      by blast
    have "bind_loop bs (l # ls) = bs @ (l # extra)" using False e(1) by simp
    moreover have "set (l # extra) = set (l # ls) - set bs" using False e(2) by auto
    moreover have "distinct bs \<longrightarrow> distinct (bs @ (l # extra))" using False e(3) by auto
    moreover have "distinct (l # extra)" using e(2,4) by auto
    ultimately show ?thesis by blast
  qed
qed

lemma bind_layers_record:
  assumes "map_of (manifest st) a = Some data"
      and "bind_layers (Some a) dialog st = (Returned (), st')"
  shows "\<exists>extra. map_of (manifest st') a
            = Some (data\<lparr>l_bindings :=
                      (if extra = [] then l_bindings data
                       else Some (bindings_of data @ extra))\<rparr>)
          \<and> set extra \<inter> set (bindings_of data) = {} \<and> distinct extra
          \<and> (distinct (bindings_of data) \<longrightarrow> distinct (bindings_of data @ extra))"
proof (cases "st' = st")
  case True
  then show ?thesis using assms(1) by (intro exI [of _ "[]"]) simp
next
  case False
  then obtain sel where sel: "dialog = Some sel" "sel \<noteq> []"
    and st': "st' = mark_dirty (st\<lparr>manifest := AList.update a
        (data\<lparr>l_bindings := Some (bind_loop (bindings_of data) sel)\<rparr>) (manifest st)\<rparr>)"
    using assms by (auto simp: bind_layers_def split: if_splits option.splits)
  obtain extra where e: "bind_loop (bindings_of data) sel = bindings_of data @ extra"
      "set extra = set sel - set (bindings_of data)"
      "distinct (bindings_of data) \<longrightarrow> distinct (bindings_of data @ extra)" "distinct extra"
    using bind_loop_prefix [of "bindings_of data" sel] by blast
  have "extra = [] \<Longrightarrow> data\<lparr>l_bindings := Some (bindings_of data)\<rparr>
          = data\<lparr>l_bindings := l_bindings data\<rparr> \<or> l_bindings data = None"
    by (cases "l_bindings data") (auto simp: bindings_of_def)
  show ?thesis
  proof (cases "extra = [] \<and> l_bindings data = None")
    case True
    then have "set sel \<subseteq> set (bindings_of data)" using e(2) by auto
    then have "sel = []" using True by (simp add: bindings_of_def)
    then show ?thesis using sel by simp
  next
    case False
    then have "data\<lparr>l_bindings := Some (bindings_of data @ extra)\<rparr>
        = data\<lparr>l_bindings := (if extra = [] then l_bindings data
                                else Some (bindings_of data @ extra))\<rparr>"
      by (cases "l_bindings data") (auto simp: bindings_of_def)
    then show ?thesis using e st' by (intro exI [of _ extra]) auto
  qed
qed

text \<open>
  C8. Take a layer \<open>a\<close> with record \<open>data\<close> and another layer \<open>c\<close> of the manifest
  that \<open>a\<close> does not bind yet. Binding \<open>c\<close> appends it to \<open>a\<close>'s bindings, and
  unbinding \<open>c\<close> then gives back the bindings \<open>a\<close> had, with no \<open>bindings\<close> key at
  all when \<open>a\<close> had none or an empty list. An unbind that removes names never stores
  an empty list. Whatever the dialog returns, binding only appends names that were
  not bound, each once: a bindings list without duplicates stays without duplicates.
\<close>

theorem bind_then_unbind_restores:
  assumes "map_of (manifest st) a = Some data"
      and "c \<noteq> a" and "c \<in> fst ` set (manifest st)" and "c \<notin> set (bindings_of data)"
  shows "(\<exists>st1 st2.
           bind_layers (Some a) (Some [c]) st = (Returned (), st1)
         \<and> map_of (manifest st1) a = Some (data\<lparr>l_bindings := Some (bindings_of data @ [c])\<rparr>)
         \<and> unbind_layers (Some a) [c] st1 = (Returned (), st2)
         \<and> map_of (manifest st2) a =
             Some (data\<lparr>l_bindings :=
                     (if bindings_of data = [] then None else Some (bindings_of data))\<rparr>))
       \<and> (\<forall>sel st' r. sel \<noteq> [] \<and> unbind_layers (Some a) sel st = (Returned (), st')
              \<and> map_of (manifest st') a = Some r \<longrightarrow> l_bindings r \<noteq> Some [])
       \<and> (\<forall>dialog st' r. bind_layers (Some a) dialog st = (Returned (), st')
              \<and> map_of (manifest st') a = Some r \<longrightarrow>
              (\<exists>extra. bindings_of r = bindings_of data @ extra
                  \<and> set extra \<inter> set (bindings_of data) = {} \<and> distinct extra
                  \<and> (distinct (bindings_of data) \<longrightarrow> distinct (bindings_of r))))"
proof (intro conjI allI impI)
  have av: "available_layers a data (manifest st) \<noteq> []"
    using assms(2,3,4) by (auto simp: available_layers_def filter_empty_conv)
  show "\<exists>st1 st2.
           bind_layers (Some a) (Some [c]) st = (Returned (), st1)
         \<and> map_of (manifest st1) a = Some (data\<lparr>l_bindings := Some (bindings_of data @ [c])\<rparr>)
         \<and> unbind_layers (Some a) [c] st1 = (Returned (), st2)
         \<and> map_of (manifest st2) a =
             Some (data\<lparr>l_bindings :=
                     (if bindings_of data = [] then None else Some (bindings_of data))\<rparr>)"
    using assms(1,4) av
    by (simp add: bind_layers_def unbind_layers_def Let_def remove1_append)
next
  fix sel st' r
  assume "sel \<noteq> [] \<and> unbind_layers (Some a) sel st = (Returned (), st')
              \<and> map_of (manifest st') a = Some r"
  then show "l_bindings r \<noteq> Some []"
    using assms(1)
    by (auto simp: unbind_layers_def Let_def split: option.splits if_splits)
next
  fix dialog st' r
  assume h: "bind_layers (Some a) dialog st = (Returned (), st')
              \<and> map_of (manifest st') a = Some r"
  from bind_layers_record [OF assms(1) conjunct1 [OF h]] obtain extra where
    e: "map_of (manifest st') a
            = Some (data\<lparr>l_bindings :=
                      (if extra = [] then l_bindings data
                       else Some (bindings_of data @ extra))\<rparr>)"
       "set extra \<inter> set (bindings_of data) = {}" "distinct extra"
       "distinct (bindings_of data) \<longrightarrow> distinct (bindings_of data @ extra)"
    by blast
  have "bindings_of r = bindings_of data @ extra"
    using e(1) h by (auto simp: bindings_of_def)
  then show "\<exists>extra. bindings_of r = bindings_of data @ extra
                  \<and> set extra \<inter> set (bindings_of data) = {} \<and> distinct extra
                  \<and> (distinct (bindings_of data) \<longrightarrow> distinct (bindings_of r))"
    using e by auto
qed

theorem bind_then_unbind_restores_witness:
  "map_of (manifest binding_state) ''a.png'' = Some empty_record
   \<and> ''c.png'' \<noteq> ''a.png'' \<and> ''c.png'' \<in> fst ` set (manifest binding_state)
   \<and> ''c.png'' \<notin> set (bindings_of empty_record)
   \<and> (\<exists>st1 st2.
         bind_layers (Some ''a.png'') (Some [''c.png'']) binding_state = (Returned (), st1)
       \<and> map_of (manifest st1) ''a.png'' = Some (empty_record\<lparr>l_bindings := Some [''c.png'']\<rparr>)
       \<and> unbind_layers (Some ''a.png'') [''c.png''] st1 = (Returned (), st2)
       \<and> map_of (manifest st2) ''a.png'' = Some empty_record)"
proof -
  have h: "map_of (manifest binding_state) ''a.png'' = Some empty_record"
     "''c.png'' \<noteq> ''a.png''" "''c.png'' \<in> fst ` set (manifest binding_state)"
     "''c.png'' \<notin> set (bindings_of empty_record)"
    by (simp_all add: binding_state_def bindings_of_def empty_record_def)
  have e: "empty_record\<lparr>l_bindings := None\<rparr> = empty_record"
    by (simp add: empty_record_def)
  show ?thesis
    using h bind_then_unbind_restores [OF h]
    by (simp add: bindings_of_def empty_record_def)
qed

subsection \<open>Preview order\<close>

lemma render_bound_loop_all:
  "set bs \<subseteq> layer_files dir \<Longrightarrow>
   map d_image (fst (render_bound_loop st dir off bs z)) = bs
   \<and> map d_z (fst (render_bound_loop st dir off bs z)) = [z ..< z + length bs]
   \<and> snd (render_bound_loop st dir off bs z) = z + length bs"
proof (induction bs arbitrary: z)
  case Nil
  then show ?case by simp
next
  case (Cons b bs)
  then have "set bs \<subseteq> layer_files dir" and b: "b \<in> layer_files dir" by auto
  from Cons.IH [OF this(1), of "z + 1"] b show ?case
    by (auto simp: split_beta placed_op_def upt_conv_Cons simp del: upt_Suc)
qed

text \<open>
  C1. Let \<open>bn\<close> be the selected base layer with record \<open>rb\<close> and \<open>tn\<close> the selected
  overlay layer with record \<open>ro\<close>, and let the files of both layers and of all their
  bindings exist. Then the preview sets up, in this order, the base, the overlay, the
  overlay's bindings in list order and the base's bindings in list order; the z-values
  are 0, 1, then 2 upward for the overlay's bindings, then, one value skipped, upward
  for the base's bindings, so they increase strictly along the list and every binding
  of the base lies above every binding of the overlay. For base bindings \<open>[x, y]\<close> and
  overlay bindings \<open>[p, q]\<close> this is the order \<open>[B, O, p, q, x, y]\<close>.
\<close>

theorem update_preview_z_order:
  assumes "is_selected bn" and "is_selected tn"
      and "map_of (manifest st) bn = Some rb" and "map_of (manifest st) tn = Some ro"
      and "{bn, tn} \<union> set (bindings_of rb) \<union> set (bindings_of ro) \<subseteq> layer_files dir"
  shows "map d_image (update_preview bn tn st dir) = [bn, tn] @ bindings_of ro @ bindings_of rb
       \<and> map d_z (update_preview bn tn st dir)
           = [0, 1] @ [2 ..< 2 + length (bindings_of ro)]
             @ [3 + length (bindings_of ro)
                  ..< 3 + length (bindings_of ro) + length (bindings_of rb)]
       \<and> sorted_wrt (<) (map d_z (update_preview bn tn st dir))
       \<and> (\<forall>i j. i < length (bindings_of ro) \<and> j < length (bindings_of rb) \<longrightarrow>
             d_z (update_preview bn tn st dir ! (2 + i))
               < d_z (update_preview bn tn st dir ! (2 + length (bindings_of ro) + j)))"
proof -
  let ?off = "case l_offset rb of None \<Rightarrow> (0, 0) | Some off \<Rightarrow> off"
  let ?n = "length (bindings_of ro)"
  let ?T = "render_bound_loop st dir ?off (bindings_of ro) (Suc (Suc 0))"
  let ?B = "render_bound_loop st dir ?off (bindings_of rb) (Suc (Suc (Suc ?n)))"
  let ?ops = "update_preview bn tn st dir"
  have t: "map d_image (fst ?T) = bindings_of ro"
          "map d_z (fst ?T) = [Suc (Suc 0) ..< Suc (Suc 0) + ?n]"
          "snd ?T = Suc (Suc 0) + ?n"
    using render_bound_loop_all [of "bindings_of ro" dir st ?off "Suc (Suc 0)"] assms(5)
    by simp_all
  have b: "map d_image (fst ?B) = bindings_of rb"
          "map d_z (fst ?B) = [Suc (Suc (Suc ?n)) ..< Suc (Suc (Suc ?n)) + length (bindings_of rb)]"
    using render_bound_loop_all [of "bindings_of rb" dir st ?off "Suc (Suc (Suc ?n))"]
      assms(5) by simp_all
  have up: "?ops
      = \<lparr>d_image = bn, d_pos = (0, 0), d_scale = 1, d_opacity = 1, d_z = 0\<rparr>
        # placed_op tn ?off 1 st dir # fst ?T @ fst ?B"
    using assms t(3)
    by (simp add: update_preview_def render_bound_layers_for_def Let_def split_beta)
  have two: "(2::nat) = Suc (Suc 0)" and three: "\<And>k::nat. 3 + k = Suc (Suc (Suc k))"
    by simp_all
  have img: "map d_image ?ops = [bn, tn] @ bindings_of ro @ bindings_of rb"
    unfolding up using t(1) b(1) by (simp add: placed_op_def split_beta)
  have z: "map d_z ?ops
           = [0, 1] @ [2 ..< 2 + ?n] @ [3 + ?n ..< 3 + ?n + length (bindings_of rb)]"
    unfolding up two three using t(2) b(2) by (simp add: placed_op_def split_beta)
  have "sorted_wrt (<) ([0::nat, 1] @ [2 ..< 2 + ?n]
             @ [3 + ?n ..< 3 + ?n + length (bindings_of rb)])"
    by (auto simp: sorted_wrt_append)
  then have srt: "sorted_wrt (<) (map d_z ?ops)" using z by simp
  have len: "length ?ops = 2 + ?n + length (bindings_of rb)"
    using arg_cong [OF img, of length] by simp
  have above: "d_z (?ops ! (2 + i)) < d_z (?ops ! (2 + ?n + j))"
    if "i < ?n \<and> j < length (bindings_of rb)" for i j
  proof -
    have lt: "2 + i < 2 + ?n + j" "2 + ?n + j < length (map d_z ?ops)"
      using that len by simp_all
    have "map d_z ?ops ! (2 + i) < map d_z ?ops ! (2 + ?n + j)"
      using srt lt by (simp only: sorted_wrt_iff_nth_less)
    then show ?thesis using lt len by simp
  qed
  show ?thesis using img z srt above by blast
qed

theorem update_preview_z_order_witness:
  "is_selected ''B.png'' \<and> is_selected ''O.png''
   \<and> map_of (manifest preview_state) ''B.png''
       = Some (base_layer_record\<lparr>l_bindings := Some [''x.png'', ''y.png'']\<rparr>)
   \<and> map_of (manifest preview_state) ''O.png''
       = Some (empty_record\<lparr>l_bindings := Some [''p.png'', ''q.png'']\<rparr>)
   \<and> {''B.png'', ''O.png'', ''x.png'', ''y.png'', ''p.png'', ''q.png''}
       \<subseteq> layer_files preview_dir
   \<and> map d_image (update_preview ''B.png'' ''O.png'' preview_state preview_dir)
       = [''B.png'', ''O.png'', ''p.png'', ''q.png'', ''x.png'', ''y.png'']
   \<and> map d_z (update_preview ''B.png'' ''O.png'' preview_state preview_dir)
       = [0, 1, 2, 3, 5, 6]"
proof -
  have h: "is_selected ''B.png''" "is_selected ''O.png''"
    "map_of (manifest preview_state) ''B.png''
       = Some (base_layer_record\<lparr>l_bindings := Some [''x.png'', ''y.png'']\<rparr>)"
    "map_of (manifest preview_state) ''O.png''
       = Some (empty_record\<lparr>l_bindings := Some [''p.png'', ''q.png'']\<rparr>)"
    by (simp_all add: is_selected_def preview_state_def)
  have f: "{''B.png'', ''O.png''}
        \<union> set (bindings_of (base_layer_record\<lparr>l_bindings := Some [''x.png'', ''y.png'']\<rparr>))
        \<union> set (bindings_of (empty_record\<lparr>l_bindings := Some [''p.png'', ''q.png'']\<rparr>))
        \<subseteq> layer_files preview_dir"
    by (simp add: bindings_of_def preview_dir_def scenario_dir_def)
  have u: "[2 ..< 4] = [2::nat, 3]" "[5 ..< 7] = [5::nat, 6]"
    by (simp_all add: upt_rec)
  show ?thesis
    using h f update_preview_z_order [OF h f]
    by (simp add: bindings_of_def preview_dir_def scenario_dir_def u)
qed

subsection \<open>Scaled sizes\<close>






subsection \<open>Adding layers\<close>






subsection \<open>Creating metadata\<close>

text \<open>
  C10. For a layer of the manifest whose image file does not exist, with a project
  open and the metadata file writable, \<open>_create_and_assign_metadata\<close> succeeds: it
  returns the file name \<open><stem>.json\<close>, the file holds \<open>x = 0\<close>, \<open>y = 0\<close>,
  \<open>scale = 1\<close>, \<open>opacity = 1\<close> and the four sizes 0, the layer record names that file
  as its metadata, and the project is dirty.
\<close>

theorem create_metadata_missing_image:
  assumes "project_path st \<noteq> None" and "map_of (manifest st) layer_name = Some data"
      and "layer_name \<notin> layer_files dir"
      and "py_stem layer_name @ ''.json'' \<notin> read_only dir"
  shows "\<exists>st' dir'.
           create_and_assign_metadata layer_name st dir
             = (Returned (Some (py_stem layer_name @ ''.json'')), st', dir')
         \<and> map_of (metadata_files dir') (py_stem layer_name @ ''.json'')
             = Some (Json_doc
                 \<lparr>top_layer =
                    Some \<lparr>tl_x = Some 0, tl_y = Some 0, tl_scale = Some 1, tl_opacity = Some 1,
                          original_width = Some 0, original_height = Some 0,
                          scaled_width = Some 0, scaled_height = Some 0\<rparr>,
                  other_keys = False\<rparr>)
         \<and> map_of (manifest st') layer_name
             = Some (data\<lparr>l_metadata := Some (py_stem layer_name @ ''.json'')\<rparr>)
         \<and> is_dirty st'"
  using assms
  by (auto simp: create_and_assign_metadata_def default_metadata_def Let_def)

theorem create_metadata_missing_image_witness:
  "project_path scenario_state \<noteq> None
   \<and> map_of (manifest scenario_state) ''b.png'' = Some empty_record
   \<and> ''b.png'' \<notin> layer_files scenario_dir
   \<and> py_stem ''b.png'' @ ''.json'' = ''b.json''
   \<and> ''b.json'' \<notin> read_only scenario_dir
   \<and> (\<exists>st' dir'.
         create_and_assign_metadata ''b.png'' scenario_state scenario_dir
           = (Returned (Some ''b.json''), st', dir')
       \<and> map_of (metadata_files dir') ''b.json'' = Some (Json_doc (default_metadata 0 0))
       \<and> map_of (manifest st') ''b.png'' = Some (empty_record\<lparr>l_metadata := Some ''b.json''\<rparr>))"
proof -
  have stem: "py_stem ''b.png'' @ ''.json'' = ''b.json''"
    by (simp add: py_stem_def)
  have h: "project_path scenario_state \<noteq> None"
     "map_of (manifest scenario_state) ''b.png'' = Some empty_record"
     "''b.png'' \<notin> layer_files scenario_dir"
     "py_stem ''b.png'' @ ''.json'' \<notin> read_only scenario_dir"
    by (simp_all add: scenario_state_def scenario_dir_def stem)
  show ?thesis
    using h stem create_metadata_missing_image [OF h]
    by (simp add: default_metadata_def) blast
qed

subsection \<open>Migration\<close>

lemma migrate_file_not_Processed:
  assumes "migrate_file M d n = (out, d')" and "out \<noteq> Processed"
  shows "d' = d"
  using assms
  by (auto simp: migrate_file_def Let_def
        split: option.splits file_content.splits if_splits)

lemma migrate_file_Processed:
  assumes "migrate_file M d n = (Processed, d')"
  obtains data info w h where
    "map_of (metadata_files d) n = Some (Json_doc data)" and "top_layer data = Some info"
    and "d' = d\<lparr>metadata_files :=
               AList.update n (Json_doc (data\<lparr>top_layer := Some (backfill_sizes info w h)\<rparr>))
                 (metadata_files d)\<rparr>"
proof -
  from assms obtain data where 1: "map_of (metadata_files d) n = Some (Json_doc data)"
    by (cases "map_of (metadata_files d) n")
       (auto simp: migrate_file_def split: file_content.splits)
  with assms obtain info where 2: "top_layer data = Some info"
    by (cases "top_layer data") (auto simp: migrate_file_def)
  with 1 assms obtain lf where 3: "map_of M n = Some lf"
    by (cases "map_of M n") (auto simp: migrate_file_def split: if_splits)
  with 1 2 assms obtain w h where 4: "image_size d lf = Some (w, h)"
    by (cases "image_size d lf") (auto simp: migrate_file_def split: if_splits)
  with 1 2 3 assms have
    "d' = d\<lparr>metadata_files :=
               AList.update n (Json_doc (data\<lparr>top_layer := Some (backfill_sizes info w h)\<rparr>))
                 (metadata_files d)\<rparr>"
    by (auto simp: migrate_file_def Let_def split: if_splits)
  with 1 2 show ?thesis using that by blast
qed

lemma original_width_backfill [simp]: "original_width (backfill_sizes info w h) = Some w"
  by (simp add: backfill_sizes_def Let_def)

lemma migrate_file_migrated:
  assumes "map_of (metadata_files d) n = Some (Json_doc data)"
      and "top_layer data = Some info" and "original_width info \<noteq> None"
  shows "migrate_file M d n = (Skipped, d)"
  using assms by (auto simp: migrate_file_def)

lemma migrate_file_cong:
  assumes "layer_files d1 = layer_files d2" and "image_size d1 = image_size d2"
      and "read_only d1 = read_only d2"
      and "map_of (metadata_files d1) n = map_of (metadata_files d2) n"
  shows "fst (migrate_file M d1 n) = fst (migrate_file M d2 n)"
  using assms
  by (auto simp: migrate_file_def Let_def split: option.splits file_content.splits)

lemma migrate_file_keys:
  assumes "migrate_file M d n = (out, d')"
  shows "map fst (metadata_files d') = map fst (metadata_files d)"
proof (cases "out = Processed")
  case True
  with assms have p: "migrate_file M d n = (Processed, d')" by simp
  show ?thesis
  proof (rule migrate_file_Processed [OF p])
    fix data info w h
    assume "map_of (metadata_files d) n = Some (Json_doc data)"
      and "d' = d\<lparr>metadata_files :=
               AList.update n (Json_doc (data\<lparr>top_layer := Some (backfill_sizes info w h)\<rparr>))
                 (metadata_files d)\<rparr>"
    moreover from this(1) have "n \<in> fst ` set (metadata_files d)"
      by (metis map_of_eq_None_iff option.distinct(1))
    ultimately show ?thesis by (simp add: update_keys)
  qed
next
  case False
  with migrate_file_not_Processed [OF assms] show ?thesis by simp
qed

text \<open>A file on which the step is not Processed stays so after a step on any file.\<close>

lemma settled_step:
  assumes p: "migrate_file M d n = (o', d)" "o' \<noteq> Processed"
      and s: "migrate_file M d m = (x, d1)"
  shows "migrate_file M d1 n = (o', d1)"
proof (cases "x = Processed")
  case False
  with migrate_file_not_Processed [OF s] have "d1 = d" by simp
  with p show ?thesis by simp
next
  case True
  have "m \<noteq> n" using p s True by auto
  from s True have "migrate_file M d m = (Processed, d1)" by simp
  then obtain data where
    d1: "d1 = d\<lparr>metadata_files := AList.update m (Json_doc data) (metadata_files d)\<rparr>"
    by (rule migrate_file_Processed) blast
  have "fst (migrate_file M d1 n) = fst (migrate_file M d n)"
    by (rule migrate_file_cong) (simp_all add: d1 update_conv' \<open>m \<noteq> n\<close> [symmetric])
  then have f: "fst (migrate_file M d1 n) = o'" using p by simp
  obtain y d2 where e: "migrate_file M d1 n = (y, d2)" by (cases "migrate_file M d1 n")
  with f have "y = o'" by simp
  with migrate_file_not_Processed [OF e] p(2) have "d2 = d1" by simp
  with e \<open>y = o'\<close> show ?thesis by simp
qed

lemma settled_loop:
  assumes "migrate_file M d n = (o', d)" and "o' \<noteq> Processed"
      and "migration_loop M K i ns (c, d) = (cF, dF)"
  shows "migrate_file M dF n = (o', dF)"
  using assms
proof (induction ns arbitrary: c d i)
  case Nil
  then show ?case by simp
next
  case (Cons m ns)
  show ?case
  proof (cases "K i")
    case True
    with Cons.prems show ?thesis by simp
  next
    case False
    obtain x d1 where s: "migrate_file M d m = (x, d1)" by (cases "migrate_file M d m")
    have "migrate_file M d1 n = (o', d1)"
      by (rule settled_step [OF Cons.prems(1,2) s])
    moreover have "migration_loop M K (Suc i) ns (count_outcome c x, d1) = (cF, dF)"
      using Cons.prems(3) False s by simp
    ultimately show ?thesis using Cons.IH Cons.prems(2) by blast
  qed
qed

lemma step_settles:
  assumes s: "migrate_file M d n = (out, d1)"
  shows "migrate_file M d1 n = (if out = Processed then Skipped else out, d1)"
proof (cases "out = Processed")
  case False
  with migrate_file_not_Processed [OF s] s show ?thesis by simp
next
  case True
  with s have "migrate_file M d n = (Processed, d1)" by simp
  then obtain data info w h where
    d1: "d1 = d\<lparr>metadata_files :=
               AList.update n (Json_doc (data\<lparr>top_layer := Some (backfill_sizes info w h)\<rparr>))
                 (metadata_files d)\<rparr>"
    by (rule migrate_file_Processed)
  have "map_of (metadata_files d1) n
      = Some (Json_doc (data\<lparr>top_layer := Some (backfill_sizes info w h)\<rparr>))"
    by (simp add: d1 update_conv')
  from migrate_file_migrated [OF this, of "backfill_sizes info w h"] True
  show ?thesis by simp
qed

lemma second_loop:
  assumes "migration_loop M (\<lambda>i. False) i ns (c, d) = (cF, dF)"
  shows "(\<exists>c2K. migration_loop M K j ns (c2, dF) = (c2K, dF)
            \<and> processed_count c2K = processed_count c2)
       \<and> (\<exists>c2F. migration_loop M (\<lambda>i. False) j ns (c2, dF) = (c2F, dF)
            \<and> processed_count c2F = processed_count c2
            \<and> skipped_count c2F + skipped_count c + processed_count c
                = skipped_count c2 + skipped_count cF + processed_count cF
            \<and> error_count c2F + error_count c = error_count c2 + error_count cF)"
  using assms
proof (induction ns arbitrary: c d i c2 j)
  case Nil
  then show ?case by simp
next
  case (Cons n ns)
  obtain out d1 where s: "migrate_file M d n = (out, d1)" by (cases "migrate_file M d n")
  let ?o' = "if out = Processed then Skipped else out"
  have rest: "migration_loop M (\<lambda>i. False) (Suc i) ns (count_outcome c out, d1) = (cF, dF)"
    using Cons.prems s by simp
  have np: "?o' \<noteq> Processed" by simp
  have fin: "migrate_file M dF n = (?o', dF)"
    by (rule settled_loop [OF step_settles [OF s] np rest])
  note ih = Cons.IH [OF rest, of "Suc j" "count_outcome c2 ?o'"]
  have pc: "processed_count (count_outcome c2 ?o') = processed_count c2"
    by (cases out) (simp_all add: count_outcome_def)
  have sk: "skipped_count (count_outcome c2 ?o') + skipped_count c + processed_count c
          = skipped_count c2 + skipped_count (count_outcome c out)
            + processed_count (count_outcome c out)"
    by (cases out) (simp_all add: count_outcome_def)
  have er: "error_count (count_outcome c2 ?o') + error_count c
          = error_count c2 + error_count (count_outcome c out)"
    by (cases out) (simp_all add: count_outcome_def)
  show ?case
  proof (intro conjI)
    show "\<exists>c2K. migration_loop M K j (n # ns) (c2, dF) = (c2K, dF)
            \<and> processed_count c2K = processed_count c2"
    proof (cases "K j")
      case True
      then show ?thesis by simp
    next
      case False
      from ih obtain c2K where
        "migration_loop M K (Suc j) ns (count_outcome c2 ?o', dF) = (c2K, dF)"
        "processed_count c2K = processed_count (count_outcome c2 ?o')" by blast
      then show ?thesis using False fin pc by simp
    qed
  next
    from ih obtain c2F where
      l: "migration_loop M (\<lambda>i. False) (Suc j) ns (count_outcome c2 ?o', dF) = (c2F, dF)"
      and a: "processed_count c2F = processed_count (count_outcome c2 ?o')"
      and b: "skipped_count c2F + skipped_count (count_outcome c out)
                + processed_count (count_outcome c out)
                = skipped_count (count_outcome c2 ?o') + skipped_count cF + processed_count cF"
      and e: "error_count c2F + error_count (count_outcome c out)
                = error_count (count_outcome c2 ?o') + error_count cF"
      by blast
    have "migration_loop M (\<lambda>i. False) j (n # ns) (c2, dF) = (c2F, dF)"
      using fin l by simp
    moreover have "processed_count c2F = processed_count c2" using a pc by simp
    moreover have "skipped_count c2F + skipped_count c + processed_count c
                = skipped_count c2 + skipped_count cF + processed_count cF"
      using b sk by linarith
    moreover have "error_count c2F + error_count c = error_count c2 + error_count cF"
      using e er by linarith
    ultimately show "\<exists>c2F. migration_loop M (\<lambda>i. False) j (n # ns) (c2, dF) = (c2F, dF)
            \<and> processed_count c2F = processed_count c2
            \<and> skipped_count c2F + skipped_count c + processed_count c
                = skipped_count c2 + skipped_count cF + processed_count cF
            \<and> error_count c2F + error_count c = error_count c2 + error_count cF"
      by blast
  qed
qed

lemma loop_keys:
  "migration_loop M K i ns (c, d) = (cF, dF) \<Longrightarrow>
   map fst (metadata_files dF) = map fst (metadata_files d)"
proof (induction ns arbitrary: c d i)
  case Nil
  then show ?case by simp
next
  case (Cons n ns)
  show ?case
  proof (cases "K i")
    case True
    with Cons.prems show ?thesis by simp
  next
    case False
    obtain x d1 where s: "migrate_file M d n = (x, d1)" by (cases "migrate_file M d n")
    have "migration_loop M K (Suc i) ns (count_outcome c x, d1) = (cF, dF)"
      using Cons.prems False s by simp
    from Cons.IH [OF this] migrate_file_keys [OF s] show ?thesis by simp
  qed
qed

text \<open>
  C3. Run the migration to the end (never cancelled) on any editor state and project
  directory, and call the directory it leaves \<open>dir1\<close>. A second run on \<open>dir1\<close>,
  cancelled at any point or not at all, migrates no file and leaves \<open>dir1\<close> as it
  is. Run to the end, the second run skips every file the first run migrated or
  skipped and fails on exactly as many files as the first: its skip count is the first
  run's skip count plus the first run's processed count. When the first run stops
  before its loop (no project, no \<open>.json\<close> file), so does the second.
\<close>

theorem migration_idempotent:
  assumes "run_migration_script (\<lambda>i. False) st dir = (r1, dir1)"
  shows "(\<forall>was_canceled. \<exists>r2. run_migration_script was_canceled st dir1 = (r2, dir1)
            \<and> (\<forall>c2. r2 = Some c2 \<longrightarrow> processed_count c2 = 0))
       \<and> (\<forall>c1. r1 = Some c1 \<longrightarrow>
            (\<exists>c2. run_migration_script (\<lambda>i. False) st dir1 = (Some c2, dir1)
               \<and> processed_count c2 = 0
               \<and> skipped_count c2 = skipped_count c1 + processed_count c1
               \<and> error_count c2 = error_count c1))"
proof (cases "project_path st = None \<or> glob_json dir = []")
  case True
  then have "r1 = None" "dir1 = dir"
    using assms by (auto simp: run_migration_script_def Let_def split: option.splits)
  with True show ?thesis
    by (auto simp: run_migration_script_def Let_def split: option.splits)
next
  case False
  let ?M = "metadata_to_layer_map (manifest st)"
  obtain c1 where l1: "migration_loop ?M (\<lambda>i. False) 0 (glob_json dir) (no_counts, dir) = (c1, dir1)"
    and r1: "r1 = Some c1"
    using assms False
    by (auto simp: run_migration_script_def Let_def split: option.splits prod.splits)
  have g: "glob_json dir1 = glob_json dir"
    using loop_keys [OF l1] by (simp add: glob_json_def)
  have run2: "run_migration_script K st dir1
      = (case migration_loop ?M K 0 (glob_json dir) (no_counts, dir1) of
           (c, dir') \<Rightarrow> (Some c, dir'))" for K
    using False g by (auto simp: run_migration_script_def Let_def split: option.splits)
  have first: "\<exists>r2. run_migration_script K st dir1 = (r2, dir1)
            \<and> (\<forall>c2. r2 = Some c2 \<longrightarrow> processed_count c2 = 0)" for K
  proof -
    from second_loop [OF l1, of K 0 no_counts] obtain c2K where
      "migration_loop ?M K 0 (glob_json dir) (no_counts, dir1) = (c2K, dir1)"
      "processed_count c2K = processed_count no_counts" by blast
    then show ?thesis by (simp add: run2 no_counts_def)
  qed
  have second: "\<exists>c2. run_migration_script (\<lambda>i. False) st dir1 = (Some c2, dir1)
               \<and> processed_count c2 = 0
               \<and> skipped_count c2 = skipped_count c1 + processed_count c1
               \<and> error_count c2 = error_count c1"
  proof -
    from second_loop [OF l1, of "\<lambda>i. False" 0 no_counts] obtain c2F where
      "migration_loop ?M (\<lambda>i. False) 0 (glob_json dir) (no_counts, dir1) = (c2F, dir1)"
      "processed_count c2F = processed_count no_counts"
      "skipped_count c2F + skipped_count no_counts + processed_count no_counts
                = skipped_count no_counts + skipped_count c1 + processed_count c1"
      "error_count c2F + error_count no_counts = error_count no_counts + error_count c1"
      by blast
    then show ?thesis by (simp add: run2 no_counts_def)
  qed
  show ?thesis using first second r1 by blast
qed

lemma glob_json_migration_dir:
  "glob_json migration_dir = [''hair.json'', ''free.json'', ''bad.json'']"
  "glob_json migrated_dir = [''hair.json'', ''free.json'', ''bad.json'']"
  by (simp_all add: glob_json_def migration_dir_def migrated_dir_def suffix_to_prefix)

lemma migration_first_run:
  "run_migration_script (\<lambda>i. False) migration_state migration_dir
     = (Some \<lparr>processed_count = 1, skipped_count = 1, error_count = 1,
              error_messages = [Invalid_json_in ''bad.json'']\<rparr>, migrated_dir)"
  by (simp add: run_migration_script_def glob_json_migration_dir Let_def
        metadata_to_layer_map_def migration_state_def no_counts_def empty_record_def)
     (simp add: migrate_file_def migration_dir_def migrated_dir_def legacy_doc_def
        migrated_doc_def empty_top_layer_def backfill_sizes_def py_int_def count_outcome_def
        Let_def)

lemma migration_second_run:
  "run_migration_script (\<lambda>i. False) migration_state migrated_dir
     = (Some \<lparr>processed_count = 0, skipped_count = 2, error_count = 1,
              error_messages = [Invalid_json_in ''bad.json'']\<rparr>, migrated_dir)"
  by (simp add: run_migration_script_def glob_json_migration_dir Let_def
        metadata_to_layer_map_def migration_state_def no_counts_def empty_record_def)
     (simp add: migrate_file_def migration_dir_def migrated_dir_def legacy_doc_def
        migrated_doc_def empty_top_layer_def count_outcome_def Let_def)

theorem migration_idempotent_witness:
  "run_migration_script (\<lambda>i. False) migration_state migration_dir
     = (Some \<lparr>processed_count = 1, skipped_count = 1, error_count = 1,
              error_messages = [Invalid_json_in ''bad.json'']\<rparr>, migrated_dir)
   \<and> run_migration_script (\<lambda>i. False) migration_state migrated_dir
     = (Some \<lparr>processed_count = 0, skipped_count = 2, error_count = 1,
              error_messages = [Invalid_json_in ''bad.json'']\<rparr>, migrated_dir)
   \<and> map_of (metadata_files migrated_dir) ''hair.json'' = Some (Json_doc migrated_doc)"
  using migration_first_run migration_second_run
    migration_idempotent [OF migration_first_run]
  by (simp add: migrated_dir_def)

end
